theory Spec2Isabelle
  imports Main "HOL-Library.Word" "HOL-Library.List_Lexorder"
begin

section \<open>Values shared by the chat page and the survey modal\<close>

text \<open>
  A JavaScript string is a sequence of UTF-16 code units. A value of type
  \<open>string | null\<close> is an option, \<open>None\<close> for \<open>null\<close>/\<open>undefined\<close>; such a value is
  falsy when it is \<open>None\<close> or the empty string, which is how \<open>if (user)\<close> and
  \<open>x || ''\<close> are written out below.
\<close>

type_synonym js_string = "16 word list"

text \<open>A rejected promise carries an error value; its content is never inspected.\<close>

datatype error = Error string

text \<open>
  \<open>String.prototype.trim\<close>: strips the ECMAScript WhiteSpace and LineTerminator code
  points from both ends. All of them are single code units.
\<close>

definition js_whitespace :: "16 word \<Rightarrow> bool" where
  "js_whitespace c \<longleftrightarrow>
     c \<in> set [0x0009, 0x000A, 0x000B, 0x000C, 0x000D, 0x0020, 0x00A0, 0x1680,
              0x2000, 0x2001, 0x2002, 0x2003, 0x2004, 0x2005, 0x2006, 0x2007,
              0x2008, 0x2009, 0x200A, 0x2028, 0x2029, 0x202F, 0x205F, 0x3000, 0xFEFF]"

definition trim :: "js_string \<Rightarrow> js_string" where
  "trim s = rev (dropWhile js_whitespace (rev (dropWhile js_whitespace s)))"

section \<open>The chat page\<close>

subsection \<open>Data\<close>

datatype role = User | Assistant

text \<open>
  Modelled from the spec: the \<open>Message\<close> type of \<open>api/chat/types\<close>, which is not among
  the sources: \<open>{role, content, timestamp, functions?}\<close>, the optional \<open>functions\<close> a
  mapping from action name to metadata.
\<close>

record message =
  role :: role
  content :: js_string
  timestamp :: js_string
  msg_functions :: "(js_string \<times> js_string) list option"

text \<open>
  Modelled from the spec: the response of \<open>api.chat.messages\<close>,
  \<open>{entries: [{messages: Message[]}]}\<close>.
\<close>

record history_entry =
  entry_messages :: "message list"

record history_page =
  entries :: "history_entry list"

text \<open>The API calls the page issues, in the order issued.\<close>

datatype chat_request =
    ChatMessages js_string nat
  | ChatSendMessage js_string js_string

text \<open>
  The component state: the four \<open>useState\<close> cells, and the log of requests sent to the
  backend.
\<close>

record chat_state =
  input :: js_string
  page :: nat
  messages :: "message list"
  isLoading :: bool
  requests :: "chat_request list"

definition messagesPerPage :: nat where
  "messagesPerPage = 20"

definition initial_chat :: chat_state where
  "initial_chat = \<lparr>input = [], page = 1, messages = [], isLoading = False, requests = []\<rparr>"

subsection \<open>Operations\<close>

text \<open>\<open>Array.prototype.shift\<close>: drops the first element; an empty array stays empty.\<close>

fun shift :: "'a list \<Rightarrow> 'a list" where
  "shift [] = []"
| "shift (x # xs) = xs"

text \<open>
  \<open>appendMessage\<close>: the functional updater passed to \<open>setMessages\<close>, so it always
  runs on the latest transcript.
\<close>

definition appendMessage :: "message \<Rightarrow> chat_state \<Rightarrow> chat_state" where
  "appendMessage message st =
     (let prev = messages st;
          current = (if length prev \<ge> messagesPerPage * 2 then shift (shift prev) else prev)
      in st\<lparr>messages := current @ [message]\<rparr>)"

text \<open>
  \<open>loadPage\<close>, given the outcome of the awaited \<open>api.chat.messages\<close>. A rejection
  leaves the function at the \<open>await\<close>: the promise of \<open>loadPage\<close> rejects with the same
  error and the two statements after it do not run.
\<close>

definition loadPage ::
  "js_string \<Rightarrow> nat \<Rightarrow> error + history_page \<Rightarrow> chat_state \<Rightarrow> (error + unit) \<times> chat_state" where
  "loadPage userId pg response st =
     (let st1 = st\<lparr>isLoading := True, requests := requests st @ [ChatMessages userId pg]\<rparr>
      in case response of
           Inl e \<Rightarrow> (Inl e, st1)
         | Inr data \<Rightarrow>
             (Inr (),
              st1\<lparr>messages := concat (map (\<lambda>entry. rev (entry_messages entry)) (rev (entries data))),
                  isLoading := False\<rparr>))"

text \<open>
  \<open>sendMessage\<close>, given the current time as an ISO string and the outcome of the awaited
  \<open>api.chat.sendMessage\<close>. The user message is appended before the request is awaited.
\<close>

definition sendMessage ::
  "js_string \<Rightarrow> js_string \<Rightarrow> js_string \<Rightarrow> error + message \<Rightarrow> chat_state
     \<Rightarrow> (error + unit) \<times> chat_state" where
  "sendMessage userId msg now reply st =
     (let userMessage = \<lparr>role = User, content = msg, timestamp = now, msg_functions = None\<rparr>;
          st1 = appendMessage userMessage st;
          st2 = st1\<lparr>requests := requests st1 @ [ChatSendMessage userId msg]\<rparr>
      in case reply of
           Inl e \<Rightarrow> (Inl e, st2)
         | Inr m \<Rightarrow> (Inr (), appendMessage m st2))"

text \<open>
  \<open>handleSendMessage\<close>. The text sent is the \<open>input\<close> of the render the handler closes
  over, untrimmed; \<open>setInput('')\<close> runs before \<open>sendMessage\<close> is awaited.
\<close>

definition handleSendMessage ::
  "js_string option \<Rightarrow> js_string \<Rightarrow> error + message \<Rightarrow> chat_state
     \<Rightarrow> (error + unit) \<times> chat_state" where
  "handleSendMessage user now reply st =
     (if trim (input st) = [] then (Inr (), st)
      else case user of
             None \<Rightarrow> (Inr (), st)
           | Some u \<Rightarrow>
               if u = [] then (Inr (), st)
               else sendMessage u (input st) now reply (st\<lparr>input := []\<rparr>))"

text \<open>
  \<open>handleKeyDown\<close>: Enter without Shift sends; every other key leaves the state alone.
  The promise of \<open>handleSendMessage\<close> is not awaited here, its outcome is returned to
  show whether it rejected.
\<close>

definition handleKeyDown ::
  "string \<Rightarrow> bool \<Rightarrow> js_string option \<Rightarrow> js_string \<Rightarrow> error + message \<Rightarrow> chat_state
     \<Rightarrow> (error + unit) \<times> chat_state" where
  "handleKeyDown key shiftKey user now reply st =
     (if key = ''Enter'' \<and> \<not> shiftKey then handleSendMessage user now reply st
      else (Inr (), st))"

text \<open>The canned user text of the recommendations shortcut, as UTF-16 code units.\<close>

definition investRecommendationsText :: js_string where
  "investRecommendationsText =
     [0x0418, 0x043D, 0x0432, 0x0435, 0x0441, 0x0442, 0x0438, 0x0446, 0x0438, 0x043E,
      0x043D, 0x043D, 0x044B, 0x0435, 0x0020, 0x0440, 0x0435, 0x043A, 0x043E, 0x043C,
      0x0435, 0x043D, 0x0434, 0x0430, 0x0446, 0x0438, 0x0438]"

text \<open>
  \<open>handleInvestRecommendations\<close>, the part that runs at the click. The callback of its
  \<open>setTimeout\<close> is \<open>appendMessage mockInvestMessage\<close>, a later event of its own;
  \<open>mockInvestMessage\<close> is not among the sources and is a parameter there.
\<close>

definition handleInvestRecommendations :: "js_string \<Rightarrow> chat_state \<Rightarrow> chat_state" where
  "handleInvestRecommendations now st =
     appendMessage \<lparr>role = User, content = investRecommendationsText, timestamp = now,
                    msg_functions = None\<rparr> st"

text \<open>
  The effect on \<open>[messages.length, page, user]\<close>: loads the page when a user is known
  and the transcript is empty.
\<close>

definition initialLoadEffect ::
  "js_string option \<Rightarrow> error + history_page \<Rightarrow> chat_state \<Rightarrow> (error + unit) \<times> chat_state" where
  "initialLoadEffect user response st =
     (case user of
        None \<Rightarrow> (Inr (), st)
      | Some u \<Rightarrow>
          if u \<noteq> [] \<and> length (messages st) = 0 then loadPage u (page st) response st
          else (Inr (), st))"

text \<open>
  What can happen on the page once it is mounted, apart from a page load: typing, a key
  press, the send button, the recommendations button and the timer it starts. Each event
  carries what the environment supplies (the clock, the backend's answer).
\<close>

datatype chat_event =
    ChangeInput js_string
  | KeyDown string bool js_string "error + message"
  | ClickSend js_string "error + message"
  | ClickInvestRecommendations js_string
  | MockReplyTimeout

fun chat_step :: "js_string option \<Rightarrow> message \<Rightarrow> chat_event \<Rightarrow> chat_state \<Rightarrow> chat_state" where
  "chat_step user mockInvestMessage (ChangeInput v) st = st\<lparr>input := v\<rparr>"
| "chat_step user mockInvestMessage (KeyDown key shiftKey now reply) st =
     snd (handleKeyDown key shiftKey user now reply st)"
| "chat_step user mockInvestMessage (ClickSend now reply) st =
     snd (handleSendMessage user now reply st)"
| "chat_step user mockInvestMessage (ClickInvestRecommendations now) st =
     handleInvestRecommendations now st"
| "chat_step user mockInvestMessage MockReplyTimeout st = appendMessage mockInvestMessage st"

text \<open>
  Everything that can happen on the mounted page: one of the events above, or a run of the
  load effect with the outcome of its fetch. The user comes from the context and may
  differ from one event to the next, so each event is paired with the user of its render.
\<close>

datatype page_event =
    Handler chat_event
  | LoadEffect "error + history_page"

fun page_step :: "message \<Rightarrow> chat_state \<Rightarrow> js_string option \<times> page_event \<Rightarrow> chat_state" where
  "page_step mockInvestMessage st (user, Handler ev) = chat_step user mockInvestMessage ev st"
| "page_step mockInvestMessage st (user, LoadEffect response) =
     snd (initialLoadEffect user response st)"

text \<open>
  The states of the page whose transcript was seeded by a resolved \<open>loadPage\<close> from the
  fetched page \<open>data\<close> and has since been changed by \<open>appendMessage\<close> only.
\<close>

inductive reachable :: "history_page \<Rightarrow> chat_state \<Rightarrow> bool" for data :: history_page where
  seeded: "reachable data (snd (loadPage userId pg (Inr data) st))"
| appended: "reachable data st \<Longrightarrow> reachable data (appendMessage m st)"
| other: "reachable data st \<Longrightarrow> messages st' = messages st \<Longrightarrow> reachable data st'"

section \<open>The survey modal\<close>

subsection \<open>Data\<close>

text \<open>
  Modelled from the spec: the types of \<open>api/survey/types\<close>, which is not among the
  sources: the saved answers \<open>{answers: string[]}\<close>, the request
  \<open>{user_id, question_1..question_5}\<close> and the response \<open>{summary: string}\<close>. A request
  field is \<open>None\<close> when the form has no value under that name (\<open>undefined\<close>).
\<close>

record SurveyAnswersResponse =
  answers :: "js_string list"

record SurveyAnswersRequest =
  user_id :: js_string
  question_1 :: "js_string option"
  question_2 :: "js_string option"
  question_3 :: "js_string option"
  question_4 :: "js_string option"
  question_5 :: "js_string option"

record SurveySummaryResponse =
  summary :: js_string

text \<open>The object \<open>mapAnswersToFormValues\<close> returns.\<close>

record form_values =
  question1 :: js_string
  question2 :: js_string
  question3 :: js_string
  question4 :: js_string
  question5 :: js_string

text \<open>
  What the component does to the outside, in order: the API calls, \<open>console.error\<close> with
  its label and the error, and the call of the \<open>onClose\<close> prop.
\<close>

datatype survey_effect =
    GetQuestions
  | GetAnswers "js_string option"
  | SubmitAnswers SurveyAnswersRequest
  | ConsoleError string error
  | OnClose

text \<open>
  The component state: the \<open>useState\<close> cells, the values held by the form instance
  (field name to value) and the log of effects.
\<close>

record survey_state =
  loading :: bool
  questions :: "js_string list"
  savedAnswers :: "SurveyAnswersResponse option"
  form :: "string \<rightharpoonup> js_string"
  summaryModalOpen :: bool
  summaryData :: js_string
  effects :: "survey_effect list"

text \<open>The state at mount, from the initialisers of the \<open>useState\<close> calls.\<close>

definition initial_survey :: survey_state where
  "initial_survey =
     \<lparr>loading = False, questions = [], savedAnswers = None, form = Map.empty,
      summaryModalOpen = False, summaryData = [], effects = []\<rparr>"

subsection \<open>Operations\<close>

text \<open>
  \<open>Promise.all\<close> of two promises: resolves with both values, rejects with the error of
  the promise that rejected first. When both reject, \<open>secondFirst\<close> says the second one
  did so first.
\<close>

fun promise_all :: "bool \<Rightarrow> error + 'a \<Rightarrow> error + 'b \<Rightarrow> error + ('a \<times> 'b)" where
  "promise_all secondFirst (Inr a) (Inr b) = Inr (a, b)"
| "promise_all secondFirst (Inl e) (Inr b) = Inl e"
| "promise_all secondFirst (Inr a) (Inl e) = Inl e"
| "promise_all secondFirst (Inl e1) (Inl e2) = Inl (if secondFirst then e2 else e1)"

text \<open>
  \<open>loadData\<close>, given the outcomes of the two fetches. \<open>user!\<close> is a compile-time
  assertion only, so the request carries the user as it is.
\<close>

definition loadData ::
  "js_string option \<Rightarrow> bool \<Rightarrow> error + js_string list \<Rightarrow> error + SurveyAnswersResponse
     \<Rightarrow> survey_state \<Rightarrow> survey_state" where
  "loadData user secondFirst questionsResponse answersResponse st =
     (let st1 = st\<lparr>loading := True, effects := effects st @ [GetQuestions, GetAnswers user]\<rparr>;
          st2 =
            (case promise_all secondFirst questionsResponse answersResponse of
               Inr (q, a) \<Rightarrow> st1\<lparr>questions := q, savedAnswers := Some a\<rparr>
             | Inl e \<Rightarrow>
                 st1\<lparr>effects := effects st1 @ [ConsoleError ''Error loading survey data:'' e]\<rparr>)
      in st2\<lparr>loading := False\<rparr>)"

text \<open>\<open>answers[i]\<close>: \<open>undefined\<close> past the end of the array.\<close>

definition index :: "'a list \<Rightarrow> nat \<Rightarrow> 'a option" where
  "index xs i = (if i < length xs then Some (xs ! i) else None)"

text \<open>\<open>x || ''\<close> for \<open>x\<close> a string or \<open>undefined\<close>.\<close>

definition or_empty :: "js_string option \<Rightarrow> js_string" where
  "or_empty x = (case x of None \<Rightarrow> [] | Some s \<Rightarrow> if s \<noteq> [] then s else [])"

definition mapAnswersToFormValues :: "js_string list \<Rightarrow> form_values" where
  "mapAnswersToFormValues as =
     \<lparr>question1 = or_empty (index as 0),
      question2 = or_empty (index as 1),
      question3 = or_empty (index as 2),
      question4 = or_empty (index as 3),
      question5 = or_empty (index as 4)\<rparr>"

text \<open>\<open>form.setFieldsValue\<close>: stores each property of the object under its name.\<close>

definition setFieldsValue :: "form_values \<Rightarrow> (string \<rightharpoonup> js_string) \<Rightarrow> (string \<rightharpoonup> js_string)" where
  "setFieldsValue v f =
     f(''question1'' \<mapsto> question1 v, ''question2'' \<mapsto> question2 v, ''question3'' \<mapsto> question3 v,
       ''question4'' \<mapsto> question4 v, ''question5'' \<mapsto> question5 v)"

text \<open>The effect on \<open>[savedAnswers, questions, form]\<close> that pre-fills the form.\<close>

definition prefillEffect :: "survey_state \<Rightarrow> survey_state" where
  "prefillEffect st =
     (case savedAnswers st of
        None \<Rightarrow> st
      | Some sa \<Rightarrow>
          if length (questions st) > 0
          then st\<lparr>form := setFieldsValue (mapAnswersToFormValues (answers sa)) (form st)\<rparr>
          else st)"

text \<open>
  \<open>handleSubmit\<close>, given the values the form passes to \<open>onFinish\<close> and the outcome of the
  awaited \<open>api.survey.submitAnswers\<close>. \<open>onClose\<close> is the parent's callback; its call is
  logged and taken to return normally.
\<close>

definition handleSubmit ::
  "js_string option \<Rightarrow> (string \<rightharpoonup> js_string) \<Rightarrow> error + SurveySummaryResponse
     \<Rightarrow> survey_state \<Rightarrow> survey_state" where
  "handleSubmit user vals response st =
     (case user of
        None \<Rightarrow> st
      | Some u \<Rightarrow>
          if u = [] then st
          else
            let request =
                  \<lparr>user_id = u,
                   question_1 = vals ''question1'',
                   question_2 = vals ''question2'',
                   question_3 = vals ''question3'',
                   question_4 = vals ''question4'',
                   question_5 = vals ''question5''\<rparr>;
                st1 = st\<lparr>loading := True, effects := effects st @ [SubmitAnswers request]\<rparr>;
                st2 =
                  (case response of
                     Inr r \<Rightarrow>
                       st1\<lparr>summaryData := summary r,
                           effects := effects st1 @ [OnClose],
                           summaryModalOpen := True\<rparr>
                   | Inl e \<Rightarrow>
                       st1\<lparr>effects := effects st1 @ [ConsoleError ''Error submitting answers:'' e]\<rparr>)
            in st2\<lparr>loading := False\<rparr>)"

text \<open>
  The body of the result modal: nothing while it is closed, otherwise the summary rendered
  as markdown when \<open>summaryData\<close> is truthy and the pending indicator when it is not.
\<close>

datatype summary_body = Markdown js_string | PendingSpin

definition summaryModal :: "survey_state \<Rightarrow> summary_body option" where
  "summaryModal st =
     (if summaryModalOpen st
      then Some (if summaryData st \<noteq> [] then Markdown (summaryData st) else PendingSpin)
      else None)"

section \<open>Auxiliary facts\<close>

lemma shift_shift_drop: "shift (shift xs) = drop 2 xs"
  by (cases xs rule: shift.cases; cases "tl xs") (auto simp: numeral_2_eq_2)

lemma appendMessage_eq:
  "appendMessage m st =
     st\<lparr>messages :=
          (if 2 * messagesPerPage \<le> length (messages st) then drop 2 (messages st) else messages st) @ [m]\<rparr>"
  by (simp add: appendMessage_def Let_def shift_shift_drop mult.commute)

lemma messages_appendMessage:
  "messages (appendMessage m st) =
     (if 2 * messagesPerPage \<le> length (messages st) then drop 2 (messages st) else messages st) @ [m]"
  by (simp add: appendMessage_eq)

lemma messages_loadPage_resolved:
  "messages (snd (loadPage u p (Inr data) st)) = rev (concat (map entry_messages (entries data)))"
  by (simp add: loadPage_def Let_def rev_concat rev_map comp_def)

lemma length_appendMessage_le:
  "length (messages st) \<le> 2 * messagesPerPage \<Longrightarrow>
   length (messages (appendMessage m st)) \<le> 2 * messagesPerPage"
  by (simp add: messages_appendMessage messagesPerPage_def)

text \<open>A concatenation is ordered when its parts are, within and across.\<close>

lemma sorted_wrt_concat_iff:
  "sorted_wrt P (concat xss) \<longleftrightarrow>
     (\<forall>xs\<in>set xss. sorted_wrt P xs) \<and>
     sorted_wrt (\<lambda>xs ys. \<forall>x\<in>set xs. \<forall>y\<in>set ys. P x y) xss"
  by (induction xss) (auto simp: sorted_wrt_append)

text \<open>Trimming leaves nothing exactly when every code unit is whitespace.\<close>

lemma trim_empty_iff: "trim s = [] \<longleftrightarrow> (\<forall>c\<in>set s. js_whitespace c)"
proof
  assume "trim s = []"
  then have all: "\<forall>c\<in>set (dropWhile js_whitespace s). js_whitespace c"
    by (simp add: trim_def)
  have "dropWhile js_whitespace s = []"
  proof (rule ccontr)
    assume ne: "dropWhile js_whitespace s \<noteq> []"
    then have "\<not> js_whitespace (hd (dropWhile js_whitespace s))"
      by (rule hd_dropWhile)
    moreover from ne have "hd (dropWhile js_whitespace s) \<in> set (dropWhile js_whitespace s)"
      by simp
    ultimately show False using all by blast
  qed
  then show "\<forall>c\<in>set s. js_whitespace c" by simp
next
  assume "\<forall>c\<in>set s. js_whitespace c"
  then have h: "dropWhile js_whitespace s = []" by simp
  show "trim s = []" unfolding trim_def h by simp
qed

text \<open>No handler of the page other than \<open>loadPage\<close> writes the loading flag.\<close>

lemma isLoading_appendMessage: "isLoading (appendMessage m st) = isLoading st"
  by (simp add: appendMessage_eq)

lemma isLoading_sendMessage: "isLoading (snd (sendMessage u msg now reply st)) = isLoading st"
  by (cases reply) (simp_all add: sendMessage_def Let_def isLoading_appendMessage)

lemma isLoading_handleSendMessage:
  "isLoading (snd (handleSendMessage user now reply st)) = isLoading st"
  by (simp add: handleSendMessage_def isLoading_sendMessage split: option.splits)

lemma isLoading_chat_step: "isLoading (chat_step user mock ev st) = isLoading st"
  by (cases ev)
    (simp_all add: handleKeyDown_def isLoading_handleSendMessage handleInvestRecommendations_def
       isLoading_appendMessage)

lemma isLoading_chat_steps:
  "isLoading (foldl (\<lambda>s ev. chat_step user mock ev s) st evs) = isLoading st"
  by (induction evs arbitrary: st) (simp_all add: isLoading_chat_step)

text \<open>
  A run of the load effect whose fetch rejects does not clear the flag either, so the flag
  stays set as long as no run of the effect resolves.
\<close>

lemma isLoading_initialLoadEffect_rejected:
  "isLoading st \<Longrightarrow> isLoading (snd (initialLoadEffect user (Inl e) st))"
  by (simp add: initialLoadEffect_def loadPage_def Let_def split: option.splits)

lemma isLoading_page_step:
  assumes "isLoading st" and "\<forall>d. snd x \<noteq> LoadEffect (Inr d)"
  shows "isLoading (page_step mock st x)"
proof (cases x)
  case (Pair user pe)
  show ?thesis
  proof (cases pe)
    case (Handler ev)
    with Pair assms(1) show ?thesis by (simp add: isLoading_chat_step)
  next
    case (LoadEffect response)
    with Pair assms(2) obtain e where "response = Inl e"
      by (cases response) auto
    with Pair LoadEffect assms(1) show ?thesis
      by (simp add: isLoading_initialLoadEffect_rejected)
  qed
qed

lemma isLoading_page_steps:
  "isLoading st \<Longrightarrow> \<forall>x\<in>set evs. \<forall>d. snd x \<noteq> LoadEffect (Inr d) \<Longrightarrow>
   isLoading (foldl (page_step mock) st evs)"
  by (induction evs arbitrary: st) (simp_all add: isLoading_page_step)

lemma or_empty_index: "or_empty (index xs i) = (if i < length xs then xs ! i else [])"
  by (simp add: or_empty_def index_def)

text \<open>Reading five positions of a list of at most five elements pads it to five.\<close>

lemma pad_five:
  assumes le: "length xs \<le> 5"
  shows "[if 0 < length xs then xs ! 0 else d, if 1 < length xs then xs ! 1 else d,
          if 2 < length xs then xs ! 2 else d, if 3 < length xs then xs ! 3 else d,
          if 4 < length xs then xs ! 4 else d] = xs @ replicate (5 - length xs) d"
    (is "?l = ?r")
proof (rule nth_equalityI)
  show "length ?l = length ?r"
    using le by simp
  fix i
  assume "i < length ?l"
  then have "i < 5" by simp
  then consider "i = 0" | "i = 1" | "i = 2" | "i = 3" | "i = 4" by linarith
  then show "?l ! i = ?r ! i"
    using le by cases (simp_all add: nth_append)
qed

section \<open>Properties of the transcript window\<close>

text \<open>
  C1, as stated: in every reachable state of the chat page the transcript has at most
  \<open>2 * messagesPerPage\<close> entries. It fails: \<open>loadPage\<close> stores the fetched page as it
  is, so a page of one entry with 41 messages seeds a transcript of 41 entries.
\<close>

theorem transcript_bound_counterexample:
  "reachable
     \<lparr>entries = [\<lparr>entry_messages =
        replicate 41 \<lparr>role = Assistant, content = [0x68, 0x69], timestamp = [], msg_functions = None\<rparr>\<rparr>]\<rparr>
     (snd (loadPage [0x75] 1
        (Inr \<lparr>entries = [\<lparr>entry_messages =
           replicate 41 \<lparr>role = Assistant, content = [0x68, 0x69], timestamp = [], msg_functions = None\<rparr>\<rparr>]\<rparr>)
        initial_chat)) \<and>
   \<not> length (messages (snd (loadPage [0x75] 1
        (Inr \<lparr>entries = [\<lparr>entry_messages =
           replicate 41 \<lparr>role = Assistant, content = [0x68, 0x69], timestamp = [], msg_functions = None\<rparr>\<rparr>]\<rparr>)
        initial_chat))) \<le> 2 * messagesPerPage"
  by (simp add: reachable.seeded messages_loadPage_resolved messagesPerPage_def)

text \<open>
  C1, amended: when the fetched page holds at most \<open>2 * messagesPerPage\<close> messages in
  all, every state reachable from it by \<open>appendMessage\<close> (and by steps that leave the
  transcript alone) has a transcript of at most \<open>2 * messagesPerPage\<close> entries.
\<close>

theorem transcript_bounded:
  assumes "length (concat (map entry_messages (entries data))) \<le> 2 * messagesPerPage"
    and "reachable data st"
  shows "length (messages st) \<le> 2 * messagesPerPage"
  using assms(2)
proof (induction rule: reachable.induct)
  case (seeded userId pg st)
  show ?case using assms(1) by (simp add: messages_loadPage_resolved)
next
  case (appended st m)
  then show ?case by (simp add: length_appendMessage_le)
next
  case (other st st')
  then show ?case by simp
qed

theorem transcript_bounded_witness:
  "length (concat (map entry_messages (entries
      \<lparr>entries = [\<lparr>entry_messages =
         [\<lparr>role = Assistant, content = [0x68, 0x69], timestamp = [], msg_functions = None\<rparr>]\<rparr>]\<rparr>)))
     \<le> 2 * messagesPerPage \<and>
   reachable
     \<lparr>entries = [\<lparr>entry_messages =
        [\<lparr>role = Assistant, content = [0x68, 0x69], timestamp = [], msg_functions = None\<rparr>]\<rparr>]\<rparr>
     (appendMessage \<lparr>role = User, content = [0x6F, 0x6B], timestamp = [], msg_functions = None\<rparr>
        (snd (loadPage [0x75] 1
          (Inr \<lparr>entries = [\<lparr>entry_messages =
             [\<lparr>role = Assistant, content = [0x68, 0x69], timestamp = [], msg_functions = None\<rparr>]\<rparr>]\<rparr>)
          initial_chat))) \<and>
   length (messages
     (appendMessage \<lparr>role = User, content = [0x6F, 0x6B], timestamp = [], msg_functions = None\<rparr>
        (snd (loadPage [0x75] 1
          (Inr \<lparr>entries = [\<lparr>entry_messages =
             [\<lparr>role = Assistant, content = [0x68, 0x69], timestamp = [], msg_functions = None\<rparr>]\<rparr>]\<rparr>)
          initial_chat)))) \<le> 2 * messagesPerPage"
proof -
  let ?m = "\<lparr>role = Assistant, content = [0x68, 0x69], timestamp = [], msg_functions = None\<rparr>"
  let ?d = "\<lparr>entries = [\<lparr>entry_messages = [?m]\<rparr>]\<rparr>"
  let ?s = "appendMessage \<lparr>role = User, content = [0x6F, 0x6B], timestamp = [], msg_functions = None\<rparr>
              (snd (loadPage [0x75] 1 (Inr ?d) initial_chat))"
  have h1: "length (concat (map entry_messages (entries ?d))) \<le> 2 * messagesPerPage"
    by (simp add: messagesPerPage_def)
  have h2: "reachable ?d ?s"
    by (rule reachable.appended) (rule reachable.seeded)
  from h1 h2 transcript_bounded [OF h1 h2] show ?thesis by blast
qed

text \<open>
  C2: on a transcript of at least \<open>2 * messagesPerPage\<close> entries \<open>appendMessage\<close>
  drops the two oldest entries and then pushes the new one; from exactly
  \<open>2 * messagesPerPage\<close> entries, appending a user message \<open>u\<close> and then an assistant
  message \<open>a\<close> gives the old transcript without its two oldest entries, in order,
  followed by \<open>u\<close> and \<open>a\<close>, again \<open>2 * messagesPerPage\<close> entries.
\<close>

theorem appendMessage_evicts_two:
  "(2 * messagesPerPage \<le> length (messages st) \<longrightarrow>
      messages (appendMessage m st) = drop 2 (messages st) @ [m]) \<and>
   (length (messages st) = 2 * messagesPerPage \<longrightarrow>
      messages (appendMessage a (appendMessage u st)) = drop 2 (messages st) @ [u, a] \<and>
      length (messages (appendMessage a (appendMessage u st))) = 2 * messagesPerPage)"
  by (simp add: messages_appendMessage messagesPerPage_def)

theorem appendMessage_evicts_two_witness:
  "length (messages (initial_chat\<lparr>messages :=
      \<lparr>role = User, content = [0x31], timestamp = [], msg_functions = None\<rparr>
      # \<lparr>role = Assistant, content = [0x32], timestamp = [], msg_functions = None\<rparr>
      # replicate 38 \<lparr>role = User, content = [0x33], timestamp = [], msg_functions = None\<rparr>\<rparr>))
     = 2 * messagesPerPage \<and>
   messages
     (appendMessage \<lparr>role = User, content = [0x34], timestamp = [], msg_functions = None\<rparr>
       (initial_chat\<lparr>messages :=
          \<lparr>role = User, content = [0x31], timestamp = [], msg_functions = None\<rparr>
          # \<lparr>role = Assistant, content = [0x32], timestamp = [], msg_functions = None\<rparr>
          # replicate 38 \<lparr>role = User, content = [0x33], timestamp = [], msg_functions = None\<rparr>\<rparr>))
     = replicate 38 \<lparr>role = User, content = [0x33], timestamp = [], msg_functions = None\<rparr>
       @ [\<lparr>role = User, content = [0x34], timestamp = [], msg_functions = None\<rparr>] \<and>
   messages
     (appendMessage \<lparr>role = Assistant, content = [0x35], timestamp = [], msg_functions = None\<rparr>
       (appendMessage \<lparr>role = User, content = [0x34], timestamp = [], msg_functions = None\<rparr>
         (initial_chat\<lparr>messages :=
            \<lparr>role = User, content = [0x31], timestamp = [], msg_functions = None\<rparr>
            # \<lparr>role = Assistant, content = [0x32], timestamp = [], msg_functions = None\<rparr>
            # replicate 38 \<lparr>role = User, content = [0x33], timestamp = [], msg_functions = None\<rparr>\<rparr>)))
     = replicate 38 \<lparr>role = User, content = [0x33], timestamp = [], msg_functions = None\<rparr>
       @ [\<lparr>role = User, content = [0x34], timestamp = [], msg_functions = None\<rparr>,
          \<lparr>role = Assistant, content = [0x35], timestamp = [], msg_functions = None\<rparr>]"
proof -
  let ?s = "initial_chat\<lparr>messages :=
      \<lparr>role = User, content = [0x31], timestamp = [], msg_functions = None\<rparr>
      # \<lparr>role = Assistant, content = [0x32], timestamp = [], msg_functions = None\<rparr>
      # replicate 38 \<lparr>role = User, content = [0x33], timestamp = [], msg_functions = None\<rparr>\<rparr>"
  have h: "length (messages ?s) = 2 * messagesPerPage"
    by (simp add: messagesPerPage_def)
  from h appendMessage_evicts_two
         [of ?s "\<lparr>role = User, content = [0x34], timestamp = [], msg_functions = None\<rparr>"
             "\<lparr>role = Assistant, content = [0x35], timestamp = [], msg_functions = None\<rparr>"
             "\<lparr>role = User, content = [0x34], timestamp = [], msg_functions = None\<rparr>"]
  show ?thesis by simp
qed

text \<open>
  C3: a resolved \<open>loadPage\<close> seeds the transcript with
  \<open>data.entries.reverse().flatMap(entry => entry.messages.reverse())\<close>, which is the
  reversal of the flattened page; so when the entries run from newest to oldest (each
  message of an entry \<open>newer\<close> than each message of every later entry) and so do the
  messages within each entry, the transcript runs from oldest to newest.
\<close>

theorem loadPage_chronological:
  "messages (snd (loadPage u p (Inr data) st)) =
     concat (map (\<lambda>entry. rev (entry_messages entry)) (rev (entries data))) \<and>
   messages (snd (loadPage u p (Inr data) st)) = rev (concat (map entry_messages (entries data))) \<and>
   (sorted_wrt (\<lambda>e1 e2. \<forall>a\<in>set (entry_messages e1). \<forall>b\<in>set (entry_messages e2). newer a b)
      (entries data) \<and>
    (\<forall>e\<in>set (entries data). sorted_wrt newer (entry_messages e)) \<longrightarrow>
      sorted_wrt (\<lambda>a b. newer b a) (messages (snd (loadPage u p (Inr data) st))))"
proof -
  have m: "messages (snd (loadPage u p (Inr data) st)) =
      concat (map (\<lambda>entry. rev (entry_messages entry)) (rev (entries data)))"
    by (simp add: loadPage_def Let_def)
  have r: "messages (snd (loadPage u p (Inr data) st)) = rev (concat (map entry_messages (entries data)))"
    by (rule messages_loadPage_resolved)
  have "sorted_wrt newer (concat (map entry_messages (entries data)))"
    if "sorted_wrt (\<lambda>e1 e2. \<forall>a\<in>set (entry_messages e1). \<forall>b\<in>set (entry_messages e2). newer a b)
          (entries data)"
      and "\<forall>e\<in>set (entries data). sorted_wrt newer (entry_messages e)"
    using that by (simp add: sorted_wrt_concat_iff sorted_wrt_map)
  then have "sorted_wrt (\<lambda>e1 e2. \<forall>a\<in>set (entry_messages e1). \<forall>b\<in>set (entry_messages e2). newer a b)
      (entries data) \<and>
    (\<forall>e\<in>set (entries data). sorted_wrt newer (entry_messages e)) \<longrightarrow>
      sorted_wrt (\<lambda>a b. newer b a) (messages (snd (loadPage u p (Inr data) st)))"
    unfolding r by (simp add: sorted_wrt_rev)
  with m r show ?thesis by blast
qed

theorem loadPage_chronological_witness:
  "sorted_wrt (\<lambda>e1 e2. \<forall>a\<in>set (entry_messages e1). \<forall>b\<in>set (entry_messages e2).
                 timestamp b \<le> timestamp a)
     (entries
        \<lparr>entries =
           [\<lparr>entry_messages =
               [\<lparr>role = Assistant, content = [0x64], timestamp = [0x34], msg_functions = None\<rparr>,
                \<lparr>role = User, content = [0x63], timestamp = [0x33], msg_functions = None\<rparr>]\<rparr>,
            \<lparr>entry_messages =
               [\<lparr>role = Assistant, content = [0x62], timestamp = [0x32], msg_functions = None\<rparr>,
                \<lparr>role = User, content = [0x61], timestamp = [0x31], msg_functions = None\<rparr>]\<rparr>]\<rparr>) \<and>
   list_all (\<lambda>e. sorted_wrt (\<lambda>a b. timestamp b \<le> timestamp a) (entry_messages e))
     (entries
        \<lparr>entries =
           [\<lparr>entry_messages =
               [\<lparr>role = Assistant, content = [0x64], timestamp = [0x34], msg_functions = None\<rparr>,
                \<lparr>role = User, content = [0x63], timestamp = [0x33], msg_functions = None\<rparr>]\<rparr>,
            \<lparr>entry_messages =
               [\<lparr>role = Assistant, content = [0x62], timestamp = [0x32], msg_functions = None\<rparr>,
                \<lparr>role = User, content = [0x61], timestamp = [0x31], msg_functions = None\<rparr>]\<rparr>]\<rparr>) \<and>
   messages (snd (loadPage [0x75] 1
     (Inr \<lparr>entries =
           [\<lparr>entry_messages =
               [\<lparr>role = Assistant, content = [0x64], timestamp = [0x34], msg_functions = None\<rparr>,
                \<lparr>role = User, content = [0x63], timestamp = [0x33], msg_functions = None\<rparr>]\<rparr>,
            \<lparr>entry_messages =
               [\<lparr>role = Assistant, content = [0x62], timestamp = [0x32], msg_functions = None\<rparr>,
                \<lparr>role = User, content = [0x61], timestamp = [0x31], msg_functions = None\<rparr>]\<rparr>]\<rparr>)
     initial_chat)) =
     [\<lparr>role = User, content = [0x61], timestamp = [0x31], msg_functions = None\<rparr>,
      \<lparr>role = Assistant, content = [0x62], timestamp = [0x32], msg_functions = None\<rparr>,
      \<lparr>role = User, content = [0x63], timestamp = [0x33], msg_functions = None\<rparr>,
      \<lparr>role = Assistant, content = [0x64], timestamp = [0x34], msg_functions = None\<rparr>] \<and>
   sorted_wrt (\<lambda>a b. timestamp a \<le> timestamp b)
     (messages (snd (loadPage [0x75] 1
       (Inr \<lparr>entries =
           [\<lparr>entry_messages =
               [\<lparr>role = Assistant, content = [0x64], timestamp = [0x34], msg_functions = None\<rparr>,
                \<lparr>role = User, content = [0x63], timestamp = [0x33], msg_functions = None\<rparr>]\<rparr>,
            \<lparr>entry_messages =
               [\<lparr>role = Assistant, content = [0x62], timestamp = [0x32], msg_functions = None\<rparr>,
                \<lparr>role = User, content = [0x61], timestamp = [0x31], msg_functions = None\<rparr>]\<rparr>]\<rparr>)
       initial_chat)))"
proof -
  let ?d = "\<lparr>entries =
           [\<lparr>entry_messages =
               [\<lparr>role = Assistant, content = [0x64], timestamp = [0x34], msg_functions = None\<rparr>,
                \<lparr>role = User, content = [0x63], timestamp = [0x33], msg_functions = None\<rparr>]\<rparr>,
            \<lparr>entry_messages =
               [\<lparr>role = Assistant, content = [0x62], timestamp = [0x32], msg_functions = None\<rparr>,
                \<lparr>role = User, content = [0x61], timestamp = [0x31], msg_functions = None\<rparr>]\<rparr>]\<rparr>"
  note t = loadPage_chronological
         [of "[0x75]" 1 ?d initial_chat "\<lambda>a b. timestamp b \<le> timestamp a"]
  have h1: "sorted_wrt (\<lambda>e1 e2. \<forall>a\<in>set (entry_messages e1). \<forall>b\<in>set (entry_messages e2).
                 timestamp b \<le> timestamp a) (entries ?d)"
    by simp
  have h2: "\<forall>e\<in>set (entries ?d). sorted_wrt (\<lambda>a b. timestamp b \<le> timestamp a) (entry_messages e)"
    by simp
  from t have c1: "messages (snd (loadPage [0x75] 1 (Inr ?d) initial_chat)) =
     [\<lparr>role = User, content = [0x61], timestamp = [0x31], msg_functions = None\<rparr>,
      \<lparr>role = Assistant, content = [0x62], timestamp = [0x32], msg_functions = None\<rparr>,
      \<lparr>role = User, content = [0x63], timestamp = [0x33], msg_functions = None\<rparr>,
      \<lparr>role = Assistant, content = [0x64], timestamp = [0x34], msg_functions = None\<rparr>]"
    by simp
  from t h1 h2 have c2: "sorted_wrt (\<lambda>a b. timestamp a \<le> timestamp b)
     (messages (snd (loadPage [0x75] 1 (Inr ?d) initial_chat)))"
    by blast
  from h2 have h3: "list_all (\<lambda>e. sorted_wrt (\<lambda>a b. timestamp b \<le> timestamp a) (entry_messages e))
      (entries ?d)"
    by (simp only: list_all_iff)
  from h1 h3 c1 c2 show ?thesis by blast
qed

section \<open>Properties of sending and loading in the chat page\<close>

text \<open>
  C7: when the input is empty or consists of whitespace only, \<open>handleSendMessage\<close>
  does nothing: it resolves and the whole state is as before, so no request is logged,
  no message is appended and the input is unchanged.
\<close>

theorem handleSendMessage_blank:
  "\<forall>c\<in>set (input st). js_whitespace c \<Longrightarrow> handleSendMessage user now reply st = (Inr (), st)"
  by (simp add: handleSendMessage_def trim_empty_iff)

theorem handleSendMessage_blank_witness:
  "list_all js_whitespace (input (initial_chat\<lparr>input := [0x0020, 0x0009, 0x3000, 0x000A]\<rparr>)) \<and>
   handleSendMessage (Some [0x75]) [0x32, 0x30, 0x32, 0x36]
     (Inr \<lparr>role = Assistant, content = [0x68, 0x69], timestamp = [], msg_functions = None\<rparr>)
     (initial_chat\<lparr>input := [0x0020, 0x0009, 0x3000, 0x000A]\<rparr>)
   = (Inr (), initial_chat\<lparr>input := [0x0020, 0x0009, 0x3000, 0x000A]\<rparr>)"
proof -
  have h: "\<forall>c\<in>set (input (initial_chat\<lparr>input := [0x0020, 0x0009, 0x3000, 0x000A]\<rparr>)).
             js_whitespace c"
    by (simp add: js_whitespace_def)
  from h have l: "list_all js_whitespace (input (initial_chat\<lparr>input := [0x0020, 0x0009, 0x3000, 0x000A]\<rparr>))"
    by (simp only: list_all_iff)
  from l handleSendMessage_blank [OF h] show ?thesis by blast
qed

text \<open>
  C9: when the input is not blank, a user is known and \<open>api.chat.sendMessage\<close> rejects,
  \<open>handleSendMessage\<close> rejects with the same error and leaves the state it had reached:
  the input cleared, the user message appended at the end of the transcript (after the
  eviction, if the transcript was full), the request logged once. Nothing is rolled back.
\<close>

theorem send_rejected_keeps_optimistic_message:
  "trim (input st) \<noteq> [] \<Longrightarrow> user = Some u \<Longrightarrow> u \<noteq> [] \<Longrightarrow>
   handleSendMessage user now (Inl e) st =
     (Inl e,
      st\<lparr>input := [],
         messages :=
           (if 2 * messagesPerPage \<le> length (messages st) then drop 2 (messages st) else messages st)
             @ [\<lparr>role = User, content = input st, timestamp = now, msg_functions = None\<rparr>],
         requests := requests st @ [ChatSendMessage u (input st)]\<rparr>)"
  by (simp add: handleSendMessage_def sendMessage_def appendMessage_eq Let_def)

theorem send_rejected_keeps_optimistic_message_witness:
  "trim (input (initial_chat\<lparr>input := [0x68, 0x69]\<rparr>)) \<noteq> [] \<and>
   handleSendMessage (Some [0x75]) [0x32, 0x30, 0x32, 0x36] (Inl (Error ''rejected''))
     (initial_chat\<lparr>input := [0x68, 0x69]\<rparr>)
   = (Inl (Error ''rejected''),
      \<lparr>input = [], page = 1,
       messages = [\<lparr>role = User, content = [0x68, 0x69], timestamp = [0x32, 0x30, 0x32, 0x36],
                    msg_functions = None\<rparr>],
       isLoading = False,
       requests = [ChatSendMessage [0x75] [0x68, 0x69]]\<rparr>)"
proof -
  have h: "trim (input (initial_chat\<lparr>input := [0x68, 0x69]\<rparr>)) \<noteq> []"
    by (simp add: trim_def js_whitespace_def)
  have u: "[0x75 :: 16 word] \<noteq> []"
    by simp
  from h send_rejected_keeps_optimistic_message [OF h refl u]
  show ?thesis by (simp add: initial_chat_def messagesPerPage_def)
qed

text \<open>
  C10, as stated: after \<open>api.chat.messages\<close> rejects during \<open>loadPage\<close> the loading flag
  is never cleared and the loading state persists indefinitely. It fails: the rejected
  load leaves the transcript empty, so when the user of the context changes the load
  effect runs \<open>loadPage\<close> again, and a fetch that resolves then sets the flag to
  \<open>False\<close>.
\<close>

theorem loading_persists_counterexample:
  "fst (loadPage [0x75] 1 (Inl (Error ''rejected'')) initial_chat) = Inl (Error ''rejected'') \<and>
   isLoading (snd (loadPage [0x75] 1 (Inl (Error ''rejected'')) initial_chat)) \<and>
   \<not> isLoading
       (page_step \<lparr>role = Assistant, content = [0x6D], timestamp = [], msg_functions = None\<rparr>
          (snd (loadPage [0x75] 1 (Inl (Error ''rejected'')) initial_chat))
          (Some [0x76], LoadEffect (Inr \<lparr>entries = []\<rparr>)))"
  by (simp add: loadPage_def initialLoadEffect_def initial_chat_def Let_def)

text \<open>
  C10, amended: when \<open>api.chat.messages\<close> rejects, \<open>loadPage\<close> rejects with the same
  error, the transcript is as before and \<open>isLoading\<close> is left \<open>True\<close> (there is no
  catch or finally); it then stays \<open>True\<close> until a later \<open>loadPage\<close> resolves: through
  every sequence of typing, key, send, recommendations and timer events and of runs of
  the load effect whose fetch rejects, whatever the user of the context is at each of
  them. The effect that runs \<open>loadPage\<close> for a known user and an empty transcript ends
  in that state.
\<close>

theorem loadPage_rejected_stays_loading:
  "loadPage u p (Inl e) st =
     (Inl e, st\<lparr>isLoading := True, requests := requests st @ [ChatMessages u p]\<rparr>) \<and>
   messages (snd (loadPage u p (Inl e) st)) = messages st \<and>
   isLoading (snd (loadPage u p (Inl e) st)) \<and>
   isLoading (foldl (\<lambda>s ev. chat_step user mock ev s) (snd (loadPage u p (Inl e) st)) evs) \<and>
   ((\<forall>x\<in>set pevs. \<forall>d. snd x \<noteq> LoadEffect (Inr d)) \<longrightarrow>
      isLoading (foldl (page_step mock) (snd (loadPage u p (Inl e) st)) pevs)) \<and>
   (user = Some u \<and> u \<noteq> [] \<and> messages st = [] \<longrightarrow>
      initialLoadEffect user (Inl e) st = loadPage u (page st) (Inl e) st)"
proof -
  have l: "loadPage u p (Inl e) st =
     (Inl e, st\<lparr>isLoading := True, requests := requests st @ [ChatMessages u p]\<rparr>)"
    by (simp add: loadPage_def)
  then have i: "isLoading (snd (loadPage u p (Inl e) st))"
    by simp
  from l have m: "messages (snd (loadPage u p (Inl e) st)) = messages st"
    by simp
  from i have c: "isLoading (foldl (\<lambda>s ev. chat_step user mock ev s) (snd (loadPage u p (Inl e) st)) evs)"
    by (simp only: isLoading_chat_steps)
  from i have pe: "(\<forall>x\<in>set pevs. \<forall>d. snd x \<noteq> LoadEffect (Inr d)) \<longrightarrow>
      isLoading (foldl (page_step mock) (snd (loadPage u p (Inl e) st)) pevs)"
    by (blast intro: isLoading_page_steps)
  have f: "user = Some u \<and> u \<noteq> [] \<and> messages st = [] \<longrightarrow>
      initialLoadEffect user (Inl e) st = loadPage u (page st) (Inl e) st"
    by (simp add: initialLoadEffect_def)
  from l m i c pe f show ?thesis by blast
qed

theorem loadPage_rejected_stays_loading_witness:
  "messages initial_chat = [] \<and>
   initialLoadEffect (Some [0x75]) (Inl (Error ''rejected'')) initial_chat =
     (Inl (Error ''rejected''),
      \<lparr>input = [], page = 1, messages = [], isLoading = True,
       requests = [ChatMessages [0x75] 1]\<rparr>) \<and>
   isLoading
     (foldl (\<lambda>s ev. chat_step (Some [0x75])
                \<lparr>role = Assistant, content = [0x6D], timestamp = [], msg_functions = None\<rparr> ev s)
        (snd (loadPage [0x75] 1 (Inl (Error ''rejected'')) initial_chat))
        [ChangeInput [0x68, 0x69], ClickSend [0x32, 0x30, 0x32, 0x36] (Inl (Error ''rejected'')),
         ClickInvestRecommendations [0x32, 0x30, 0x32, 0x36], MockReplyTimeout]) \<and>
   list_all (\<lambda>x. \<forall>d. snd x \<noteq> LoadEffect (Inr d))
     [(Some [0x75], Handler (ChangeInput [0x68, 0x69])),
      (Some [0x76], LoadEffect (Inl (Error ''rejected again''))),
      (Some [0x76], Handler (ClickInvestRecommendations [0x32, 0x30, 0x32, 0x36])),
      (None, Handler MockReplyTimeout)] \<and>
   isLoading
     (foldl (page_step \<lparr>role = Assistant, content = [0x6D], timestamp = [], msg_functions = None\<rparr>)
        (snd (loadPage [0x75] 1 (Inl (Error ''rejected'')) initial_chat))
        [(Some [0x75], Handler (ChangeInput [0x68, 0x69])),
         (Some [0x76], LoadEffect (Inl (Error ''rejected again''))),
         (Some [0x76], Handler (ClickInvestRecommendations [0x32, 0x30, 0x32, 0x36])),
         (None, Handler MockReplyTimeout)])"
proof -
  let ?pevs = "[(Some [0x75], Handler (ChangeInput [0x68, 0x69])),
      (Some [0x76], LoadEffect (Inl (Error ''rejected again''))),
      (Some [0x76], Handler (ClickInvestRecommendations [0x32, 0x30, 0x32, 0x36])),
      (None, Handler MockReplyTimeout)]"
  note t = loadPage_rejected_stays_loading
         [of "[0x75]" 1 "Error ''rejected''" initial_chat "Some [0x75]"
             "\<lparr>role = Assistant, content = [0x6D], timestamp = [], msg_functions = None\<rparr>"
             "[ChangeInput [0x68, 0x69],
               ClickSend [0x32, 0x30, 0x32, 0x36] (Inl (Error ''rejected'')),
               ClickInvestRecommendations [0x32, 0x30, 0x32, 0x36], MockReplyTimeout]"
             ?pevs]
  have h: "messages initial_chat = []"
    by (simp add: initial_chat_def)
  have p: "page initial_chat = 1"
    by (simp add: initial_chat_def)
  from t h have "initialLoadEffect (Some [0x75]) (Inl (Error ''rejected'')) initial_chat =
      loadPage [0x75] (page initial_chat) (Inl (Error ''rejected'')) initial_chat"
    by simp
  also from t have "loadPage [0x75] (page initial_chat) (Inl (Error ''rejected'')) initial_chat =
      (Inl (Error ''rejected''),
       initial_chat\<lparr>isLoading := True, requests := requests initial_chat @ [ChatMessages [0x75] 1]\<rparr>)"
    unfolding p by (rule conjunct1)
  also have "initial_chat\<lparr>isLoading := True, requests := requests initial_chat @ [ChatMessages [0x75] 1]\<rparr>
      = \<lparr>input = [], page = 1, messages = [], isLoading = True, requests = [ChatMessages [0x75] 1]\<rparr>"
    by (simp add: initial_chat_def)
  finally have c1: "initialLoadEffect (Some [0x75]) (Inl (Error ''rejected'')) initial_chat =
     (Inl (Error ''rejected''),
      \<lparr>input = [], page = 1, messages = [], isLoading = True,
       requests = [ChatMessages [0x75] 1]\<rparr>)" .
  from t have c2: "isLoading
     (foldl (\<lambda>s ev. chat_step (Some [0x75])
                \<lparr>role = Assistant, content = [0x6D], timestamp = [], msg_functions = None\<rparr> ev s)
        (snd (loadPage [0x75] 1 (Inl (Error ''rejected'')) initial_chat))
        [ChangeInput [0x68, 0x69], ClickSend [0x32, 0x30, 0x32, 0x36] (Inl (Error ''rejected'')),
         ClickInvestRecommendations [0x32, 0x30, 0x32, 0x36], MockReplyTimeout])"
    by blast
  have h2: "\<forall>x\<in>set ?pevs. \<forall>d. snd x \<noteq> LoadEffect (Inr d)"
    by simp
  then have h3: "list_all (\<lambda>x. \<forall>d. snd x \<noteq> LoadEffect (Inr d)) ?pevs"
    by (simp only: list_all_iff)
  from t h2 have c3: "isLoading
     (foldl (page_step \<lparr>role = Assistant, content = [0x6D], timestamp = [], msg_functions = None\<rparr>)
        (snd (loadPage [0x75] 1 (Inl (Error ''rejected'')) initial_chat)) ?pevs)"
    by blast
  from h c1 c2 h3 c3 show ?thesis by blast
qed

section \<open>Properties of the survey modal\<close>

text \<open>
  C4: when the joined fetch of \<open>loadData\<close> rejects, or \<open>submitAnswers\<close> rejects in
  \<open>handleSubmit\<close> (a user being known), the error is passed to \<open>console.error\<close>, the
  loading flag ends \<open>False\<close>, each request was issued once and nothing else changed:
  questions, saved answers, form values, summary and result modal are as before, and
  \<open>onClose\<close> is not called.
\<close>

theorem survey_failure_handling:
  "(promise_all secondFirst q a = Inl e \<longrightarrow>
      loadData user secondFirst q a st =
        st\<lparr>loading := False,
           effects := effects st @
             [GetQuestions, GetAnswers user, ConsoleError ''Error loading survey data:'' e]\<rparr>) \<and>
   (user = Some u \<and> u \<noteq> [] \<longrightarrow>
      handleSubmit user vals (Inl e) st =
        st\<lparr>loading := False,
           effects := effects st @
             [SubmitAnswers
                \<lparr>user_id = u, question_1 = vals ''question1'', question_2 = vals ''question2'',
                 question_3 = vals ''question3'', question_4 = vals ''question4'',
                 question_5 = vals ''question5''\<rparr>,
              ConsoleError ''Error submitting answers:'' e]\<rparr>)"
  by (simp add: loadData_def handleSubmit_def Let_def)

theorem survey_failure_handling_witness:
  "promise_all False (Inl (Error ''rejected'')) (Inr \<lparr>answers = [[0x61]]\<rparr>) = Inl (Error ''rejected'') \<and>
   loadData (Some [0x75]) False (Inl (Error ''rejected'')) (Inr \<lparr>answers = [[0x61]]\<rparr>)
     (initial_survey\<lparr>loading := True, summaryData := [0x73]\<rparr>)
   = \<lparr>loading = False, questions = [], savedAnswers = None, form = Map.empty,
      summaryModalOpen = False, summaryData = [0x73],
      effects = [GetQuestions, GetAnswers (Some [0x75]),
                 ConsoleError ''Error loading survey data:'' (Error ''rejected'')]\<rparr> \<and>
   handleSubmit (Some [0x75]) (\<lambda>k. if k = ''question1'' then Some [0x61] else None)
     (Inl (Error ''rejected'')) (initial_survey\<lparr>loading := True, summaryData := [0x73]\<rparr>)
   = \<lparr>loading = False, questions = [], savedAnswers = None, form = Map.empty,
      summaryModalOpen = False, summaryData = [0x73],
      effects = [SubmitAnswers
                   \<lparr>user_id = [0x75], question_1 = Some [0x61], question_2 = None,
                    question_3 = None, question_4 = None, question_5 = None\<rparr>,
                 ConsoleError ''Error submitting answers:'' (Error ''rejected'')]\<rparr>"
proof -
  have h1: "promise_all False (Inl (Error ''rejected'')) (Inr \<lparr>answers = [[0x61 :: 16 word]]\<rparr>)
              = Inl (Error ''rejected'')"
    by simp
  have h2: "Some [0x75 :: 16 word] = Some [0x75] \<and> [0x75 :: 16 word] \<noteq> []"
    by simp
  from h1 h2 survey_failure_handling
         [of False "Inl (Error ''rejected'')" "Inr \<lparr>answers = [[0x61]]\<rparr>" "Error ''rejected''"
             "Some [0x75]" "initial_survey\<lparr>loading := True, summaryData := [0x73]\<rparr>" "[0x75]"
             "\<lambda>k. if k = ''question1'' then Some [0x61] else None"]
  show ?thesis by (simp add: initial_survey_def)
qed

text \<open>
  C5: for a known user \<open>u\<close>, the request \<open>handleSubmit\<close> sends carries \<open>u\<close> as
  \<open>user_id\<close> and the form value \<open>questionN\<close> as \<open>question_N\<close>, for \<open>N\<close> from 1 to 5;
  it is the first thing the handler does to the outside.
\<close>

theorem handleSubmit_request_mapping:
  "user = Some u \<Longrightarrow> u \<noteq> [] \<Longrightarrow>
   effects (handleSubmit user vals response st) =
     effects st @
       SubmitAnswers
         \<lparr>user_id = u, question_1 = vals ''question1'', question_2 = vals ''question2'',
          question_3 = vals ''question3'', question_4 = vals ''question4'',
          question_5 = vals ''question5''\<rparr>
       # (case response of
            Inl e \<Rightarrow> [ConsoleError ''Error submitting answers:'' e]
          | Inr r \<Rightarrow> [OnClose])"
  by (cases response) (simp_all add: handleSubmit_def Let_def)

theorem handleSubmit_request_mapping_witness:
  "[0x75 :: 16 word] \<noteq> [] \<and>
   effects (handleSubmit (Some [0x75])
      [''question1'' \<mapsto> [0x61], ''question2'' \<mapsto> [0x62], ''question3'' \<mapsto> [0x63],
       ''question4'' \<mapsto> [0x64], ''question5'' \<mapsto> [0x65]]
      (Inr \<lparr>summary = [0x73]\<rparr>) initial_survey)
   = [SubmitAnswers
        \<lparr>user_id = [0x75], question_1 = Some [0x61], question_2 = Some [0x62],
         question_3 = Some [0x63], question_4 = Some [0x64], question_5 = Some [0x65]\<rparr>,
      OnClose]"
proof -
  have u: "[0x75 :: 16 word] \<noteq> []"
    by simp
  from u handleSubmit_request_mapping
         [OF refl u,
          of "[''question1'' \<mapsto> [0x61], ''question2'' \<mapsto> [0x62], ''question3'' \<mapsto> [0x63],
               ''question4'' \<mapsto> [0x64], ''question5'' \<mapsto> [0x65]]"
             "Inr \<lparr>summary = [0x73]\<rparr>" initial_survey]
  show ?thesis by (simp add: initial_survey_def)
qed

text \<open>
  C6: for saved answers of length \<open>k \<le> 5\<close>, the five fields of
  \<open>mapAnswersToFormValues\<close>, in order, are the \<open>k\<close> answers followed by \<open>5 - k\<close> empty
  strings; and when questions are loaded the pre-fill effect stores exactly these under
  \<open>question1\<close> to \<open>question5\<close>.
\<close>

theorem mapAnswersToFormValues_prefill:
  "length as \<le> 5 \<Longrightarrow>
   [question1 (mapAnswersToFormValues as), question2 (mapAnswersToFormValues as),
    question3 (mapAnswersToFormValues as), question4 (mapAnswersToFormValues as),
    question5 (mapAnswersToFormValues as)] = as @ replicate (5 - length as) [] \<and>
   (savedAnswers st = Some \<lparr>answers = as\<rparr> \<and> questions st \<noteq> [] \<longrightarrow>
      map (form (prefillEffect st))
        [''question1'', ''question2'', ''question3'', ''question4'', ''question5'']
      = map Some (as @ replicate (5 - length as) []))"
proof -
  assume le: "length as \<le> 5"
  have fields: "[question1 (mapAnswersToFormValues as), question2 (mapAnswersToFormValues as),
    question3 (mapAnswersToFormValues as), question4 (mapAnswersToFormValues as),
    question5 (mapAnswersToFormValues as)] = as @ replicate (5 - length as) []"
  proof -
    have q: "question1 (mapAnswersToFormValues as) = (if 0 < length as then as ! 0 else [])"
      "question2 (mapAnswersToFormValues as) = (if 1 < length as then as ! 1 else [])"
      "question3 (mapAnswersToFormValues as) = (if 2 < length as then as ! 2 else [])"
      "question4 (mapAnswersToFormValues as) = (if 3 < length as then as ! 3 else [])"
      "question5 (mapAnswersToFormValues as) = (if 4 < length as then as ! 4 else [])"
      by (simp_all only: mapAnswersToFormValues_def or_empty_index form_values.simps)
    show ?thesis unfolding q by (rule pad_five [OF le])
  qed
  have "savedAnswers st = Some \<lparr>answers = as\<rparr> \<and> questions st \<noteq> [] \<longrightarrow>
      map (form (prefillEffect st))
        [''question1'', ''question2'', ''question3'', ''question4'', ''question5'']
      = map Some [question1 (mapAnswersToFormValues as), question2 (mapAnswersToFormValues as),
    question3 (mapAnswersToFormValues as), question4 (mapAnswersToFormValues as),
    question5 (mapAnswersToFormValues as)]"
    by (simp add: prefillEffect_def setFieldsValue_def)
  with fields show ?thesis by simp
qed

theorem mapAnswersToFormValues_prefill_witness:
  "length [[0x61], [0x62, 0x63 :: 16 word]] \<le> 5 \<and>
   mapAnswersToFormValues [[0x61], [0x62, 0x63]] =
     \<lparr>question1 = [0x61], question2 = [0x62, 0x63], question3 = [], question4 = [],
      question5 = []\<rparr> \<and>
   map (form (prefillEffect
          (initial_survey\<lparr>questions := [[0x51]],
                          savedAnswers := Some \<lparr>answers = [[0x61], [0x62, 0x63]]\<rparr>\<rparr>)))
     [''question1'', ''question2'', ''question3'', ''question4'', ''question5'']
   = [Some [0x61], Some [0x62, 0x63], Some [], Some [], Some []]"
proof -
  have h: "length [[0x61], [0x62, 0x63 :: 16 word]] \<le> 5"
    by simp
  from mapAnswersToFormValues_prefill
         [OF h, of "initial_survey\<lparr>questions := [[0x51]],
                                   savedAnswers := Some \<lparr>answers = [[0x61], [0x62, 0x63]]\<rparr>\<rparr>"]
  show ?thesis by (simp add: numeral_eq_Suc)
qed

text \<open>
  C8: when the submission of a known user resolves with \<open>{summary: s}\<close>, \<open>handleSubmit\<close>
  stores \<open>s\<close> as the summary, calls \<open>onClose\<close>, opens the result modal and clears the
  loading flag; the result modal then shows \<open>s\<close> as markdown whenever \<open>s\<close> is not empty.
\<close>

theorem handleSubmit_success:
  "user = Some u \<Longrightarrow> u \<noteq> [] \<Longrightarrow>
   handleSubmit user vals (Inr \<lparr>summary = s\<rparr>) st =
     st\<lparr>loading := False, summaryData := s, summaryModalOpen := True,
        effects := effects st @
          [SubmitAnswers
             \<lparr>user_id = u, question_1 = vals ''question1'', question_2 = vals ''question2'',
              question_3 = vals ''question3'', question_4 = vals ''question4'',
              question_5 = vals ''question5''\<rparr>,
           OnClose]\<rparr> \<and>
   (s \<noteq> [] \<longrightarrow> summaryModal (handleSubmit user vals (Inr \<lparr>summary = s\<rparr>) st) = Some (Markdown s))"
  by (simp add: handleSubmit_def Let_def summaryModal_def)

theorem handleSubmit_success_witness:
  "[0x75 :: 16 word] \<noteq> [] \<and> [0x23 :: 16 word, 0x20, 0x52] \<noteq> [] \<and>
   handleSubmit (Some [0x75]) (\<lambda>k. if k = ''question1'' then Some [0x61] else None)
     (Inr \<lparr>summary = [0x23, 0x20, 0x52]\<rparr>) initial_survey
   = \<lparr>loading = False, questions = [], savedAnswers = None, form = Map.empty,
      summaryModalOpen = True, summaryData = [0x23, 0x20, 0x52],
      effects = [SubmitAnswers
                   \<lparr>user_id = [0x75], question_1 = Some [0x61], question_2 = None,
                    question_3 = None, question_4 = None, question_5 = None\<rparr>,
                 OnClose]\<rparr> \<and>
   summaryModal
     (handleSubmit (Some [0x75]) (\<lambda>k. if k = ''question1'' then Some [0x61] else None)
        (Inr \<lparr>summary = [0x23, 0x20, 0x52]\<rparr>) initial_survey)
   = Some (Markdown [0x23, 0x20, 0x52])"
proof -
  have u: "[0x75 :: 16 word] \<noteq> []"
    by simp
  have s: "[0x23 :: 16 word, 0x20, 0x52] \<noteq> []"
    by simp
  note t = handleSubmit_success
         [OF refl u, of "\<lambda>k. if k = ''question1'' then Some [0x61] else None"
            "[0x23, 0x20, 0x52]" initial_survey]
  from t have c1: "handleSubmit (Some [0x75]) (\<lambda>k. if k = ''question1'' then Some [0x61] else None)
     (Inr \<lparr>summary = [0x23, 0x20, 0x52]\<rparr>) initial_survey
   = \<lparr>loading = False, questions = [], savedAnswers = None, form = Map.empty,
      summaryModalOpen = True, summaryData = [0x23, 0x20, 0x52],
      effects = [SubmitAnswers
                   \<lparr>user_id = [0x75], question_1 = Some [0x61], question_2 = None,
                    question_3 = None, question_4 = None, question_5 = None\<rparr>,
                 OnClose]\<rparr>"
    by (simp add: initial_survey_def)
  from t s have c2: "summaryModal
     (handleSubmit (Some [0x75]) (\<lambda>k. if k = ''question1'' then Some [0x61] else None)
        (Inr \<lparr>summary = [0x23, 0x20, 0x52]\<rparr>) initial_survey)
   = Some (Markdown [0x23, 0x20, 0x52])"
    by blast
  from u s c1 c2 show ?thesis by blast
qed

end
